theory Spec2Isabelle
  imports Main "HOL-Library.Sublist"
begin

section \<open>The Python runtime the four scripts rely on\<close>

text \<open>
  The repository is four Python scripts (\<^verbatim>\<open>build.py\<close>, \<^verbatim>\<open>repl_runner.py\<close>,
  \<^verbatim>\<open>validate.py\<close>, \<^verbatim>\<open>llm-repl.py\<close>) that start subprocesses and branch on their
  exit codes and captured output. A subprocess is opaque to the scripts, so what one
  launch does is an input of the model: a \<open>proc_event\<close>. Exceptions are values; a
  function that may raise returns \<open>exn + 'a\<close> with \<open>Inl\<close> the exception.

  Console output is modelled where a statement below depends on it: the summary
  lines of \<^verbatim>\<open>validate.py\<close> and the log lines of \<^verbatim>\<open>main\<close> in \<^verbatim>\<open>llm-repl.py\<close>. The other
  prints, the banners and colours, and the wall-clock durations (floating point
  readings of \<^verbatim>\<open>time.time()\<close>) are left out.
\<close>

datatype exn =
    CalledProcessError int
  | KeyboardInterrupt
  | OSError
  | NotADirectoryError
  | FileExistsError
  | ValueError
  | IndexError

text \<open>
  \<^verbatim>\<open>except Exception\<close> catches every exception above but \<^verbatim>\<open>KeyboardInterrupt\<close>, which
  derives from \<^verbatim>\<open>BaseException\<close> only.
\<close>

definition is_Exception :: "exn \<Rightarrow> bool" where
  "is_Exception e = (e \<noteq> KeyboardInterrupt)"

text \<open>
  What one call of \<^verbatim>\<open>subprocess.run\<close> meets: the process ran and exited with a return
  code (and wrote some text on its standard output), or it could not be started
  (\<^verbatim>\<open>FileNotFoundError\<close>, \<^verbatim>\<open>PermissionError\<close>: an \<^verbatim>\<open>OSError\<close>), or the user pressed
  Ctrl-C while it ran.
\<close>

datatype proc_event =
    Exit int string
  | LaunchError
  | Interrupted

record completed_process =
  returncode :: int
  stdout :: string

text \<open>\<^verbatim>\<open>subprocess.run(cmd, check=check)\<close>: with \<open>check\<close>, a nonzero return code raises.\<close>

definition subprocess_run :: "bool \<Rightarrow> proc_event \<Rightarrow> exn + completed_process" where
  "subprocess_run check ev =
     (case ev of
        Exit rc out \<Rightarrow>
          if check \<and> rc \<noteq> 0 then Inl (CalledProcessError rc)
          else Inr \<lparr>returncode = rc, stdout = out\<rparr>
      | LaunchError \<Rightarrow> Inl OSError
      | Interrupted \<Rightarrow> Inl KeyboardInterrupt)"

text \<open>\<^verbatim>\<open>str(n)\<close> for an integer: decimal digits, a minus sign for a negative number.\<close>

definition digit_char :: "nat \<Rightarrow> char" where
  "digit_char d = char_of (48 + d)"

function str_nat :: "nat \<Rightarrow> string" where
  "str_nat n = (if n < 10 then [digit_char n] else str_nat (n div 10) @ [digit_char (n mod 10)])"
  by pat_completeness auto
termination
  by (relation "measure (\<lambda>n. n)") auto

declare str_nat.simps [simp del]

definition str_int :: "int \<Rightarrow> string" where
  "str_int i = (if i < 0 then CHR ''-'' # str_nat (nat (- i)) else str_nat (nat i))"

text \<open>
  \<^verbatim>\<open>sys.exit(v)\<close> with the value a \<^verbatim>\<open>main\<close> returned. A \<^verbatim>\<open>bool\<close> is an \<^verbatim>\<open>int\<close> in Python:
  \<^verbatim>\<open>sys.exit(True)\<close> ends the process with status 1, \<^verbatim>\<open>sys.exit(False)\<close> with status 0.
\<close>

datatype pyval = PyInt int | PyBool bool

definition sys_exit :: "pyval \<Rightarrow> int" where
  "sys_exit v = (case v of PyInt n \<Rightarrow> n | PyBool b \<Rightarrow> (if b then 1 else 0))"

section \<open>build.py\<close>

text \<open>
  The build directory is absent, or a plain file of that name, or a directory with
  some entries. CMake runs inside it and may change it, so the subprocess oracle
  takes the directory's state and returns the new one with the event.
\<close>

datatype path_state = Absent | File | Dir "string list"

definition path_exists :: "path_state \<Rightarrow> bool" where
  "path_exists d = (d \<noteq> Absent)"

record build_args =
  clean :: bool
  debug :: bool
  jobs :: "int option"

text \<open>
  What a run of \<^verbatim>\<open>build.py\<close> does to the world, in order: it deletes the build
  directory, creates it, or launches a command in it (the command, the directory as
  the command finds it, the event).
\<close>

datatype build_event =
    Rmtree
  | Mkdir
  | Run "string list" path_state proc_event

record build_state =
  build_dir :: path_state
  trace :: "build_event list"

type_synonym build_oracle = "string list \<Rightarrow> path_state \<Rightarrow> proc_event \<times> path_state"

text \<open>\<^verbatim>\<open>shutil.rmtree(build_dir)\<close>: removes a directory tree; raises on a plain file.\<close>

definition rmtree :: "build_state \<Rightarrow> (exn + unit) \<times> build_state" where
  "rmtree s =
     (case build_dir s of
        Dir c \<Rightarrow> (Inr (), s\<lparr>build_dir := Absent, trace := trace s @ [Rmtree]\<rparr>)
      | File \<Rightarrow> (Inl NotADirectoryError, s)
      | Absent \<Rightarrow> (Inl OSError, s))"

text \<open>\<^verbatim>\<open>build_dir.mkdir(exist_ok=True)\<close>: a directory is kept, a plain file raises.\<close>

definition mkdir_exist_ok :: "build_state \<Rightarrow> (exn + unit) \<times> build_state" where
  "mkdir_exist_ok s =
     (case build_dir s of
        Dir c \<Rightarrow> (Inr (), s)
      | File \<Rightarrow> (Inl FileExistsError, s)
      | Absent \<Rightarrow> (Inr (), s\<lparr>build_dir := Dir [], trace := trace s @ [Mkdir]\<rparr>))"

text \<open>
  \<^verbatim>\<open>run_command(cmd, cwd=build_dir)\<close>: runs without \<^verbatim>\<open>check\<close> and returns whether the
  return code is 0. The trace keeps the command, the directory it found and the event.
\<close>

definition build_run_command ::
  "build_oracle \<Rightarrow> string list \<Rightarrow> build_state \<Rightarrow> (exn + bool) \<times> build_state" where
  "build_run_command sp cmd s =
     (let (ev, d') = sp cmd (build_dir s);
          s' = s\<lparr>build_dir := d', trace := trace s @ [Run cmd (build_dir s) ev]\<rparr>
      in case subprocess_run False ev of
           Inl e \<Rightarrow> (Inl e, s')
         | Inr result \<Rightarrow> (Inr (returncode result = 0), s'))"

definition cmake_cmd :: "string \<Rightarrow> build_args \<Rightarrow> string list" where
  "cmake_cmd project_root args =
     (let build_type = (if debug args then ''Debug'' else ''Release'')
      in [''cmake'', ''-DCMAKE_BUILD_TYPE='' @ build_type, project_root])"

definition build_cmd :: "build_args \<Rightarrow> string list" where
  "build_cmd args =
     [''cmake'', ''--build'', ''.''] @
     (case jobs args of
        None \<Rightarrow> []
      | Some n \<Rightarrow> if n \<noteq> 0 then [''--parallel'', str_int n] else [])"

text \<open>
  \<^verbatim>\<open>main()\<close> of \<^verbatim>\<open>build.py\<close>, after \<^verbatim>\<open>argparse\<close> has produced \<open>args\<close>, in its two
  halves: the build directory is cleaned and created (source lines 27 to 34), then
  CMake configures and builds (lines 36 to 58). The result is the value returned, or
  the exception that leaves \<^verbatim>\<open>main\<close> uncaught.
\<close>

definition prepare_build_dir :: "build_args \<Rightarrow> build_state \<Rightarrow> (exn + unit) \<times> build_state" where
  "prepare_build_dir args s0 =
     (case (if clean args \<and> path_exists (build_dir s0) then rmtree s0 else (Inr (), s0)) of
        (Inl e, s1) \<Rightarrow> (Inl e, s1)
      | (Inr _, s1) \<Rightarrow> mkdir_exist_ok s1)"

definition configure_and_build ::
  "build_oracle \<Rightarrow> string \<Rightarrow> build_args \<Rightarrow> build_state \<Rightarrow> (exn + int) \<times> build_state" where
  "configure_and_build sp project_root args s2 =
     (case build_run_command sp (cmake_cmd project_root args) s2 of
        (Inl e, s3) \<Rightarrow> (Inl e, s3)
      | (Inr ok, s3) \<Rightarrow>
         if \<not> ok then (Inr 1, s3)
         else
           (case build_run_command sp (build_cmd args) s3 of
              (Inl e, s4) \<Rightarrow> (Inl e, s4)
            | (Inr ok', s4) \<Rightarrow>
               if \<not> ok' then (Inr 1, s4)
               else (Inr 0, s4)))"

definition build_main ::
  "build_oracle \<Rightarrow> string \<Rightarrow> build_args \<Rightarrow> path_state \<Rightarrow> (exn + int) \<times> build_state" where
  "build_main sp project_root args start =
     (case prepare_build_dir args \<lparr>build_dir = start, trace = []\<rparr> of
        (Inl e, s2) \<Rightarrow> (Inl e, s2)
      | (Inr _, s2) \<Rightarrow> configure_and_build sp project_root args s2)"

text \<open>The subprocess launches of a trace, in order.\<close>

fun runs :: "build_event list \<Rightarrow> (string list \<times> path_state \<times> proc_event) list" where
  "runs [] = []"
| "runs (Run cmd d ev # es) = (cmd, d, ev) # runs es"
| "runs (_ # es) = runs es"

section \<open>repl_runner.py\<close>

text \<open>
  The \<^verbatim>\<open>argparse\<close> namespace of \<^verbatim>\<open>repl_runner.py\<close>: an option the user did not give is
  \<^verbatim>\<open>None\<close>, the two \<^verbatim>\<open>store_true\<close> flags are booleans. The temperature is a Python
  float; the script only tests it against \<^verbatim>\<open>None\<close> and formats it with \<^verbatim>\<open>str\<close>, so the
  float type is a parameter \<open>'f\<close> and \<^verbatim>\<open>str\<close> on floats a parameter \<open>str_float\<close>.
\<close>

record 'f namespace =
  api_key :: "string option"
  provider :: "string option"
  model :: "string option"
  config :: "string option"
  temperature :: "'f option"
  max_tokens :: "int option"
  verbose :: bool
  help_repl :: bool

text \<open>
  \<^verbatim>\<open>REPLRunner.check_executable\<close>: whether \<^verbatim>\<open>build/llm-repl.exe\<close> exists (it prints two
  lines when it does not).
\<close>

definition check_executable :: "bool \<Rightarrow> bool" where
  "check_executable exe_exists = (if \<not> exe_exists then False else True)"

text \<open>
  \<^verbatim>\<open>REPLRunner.run_repl(args)\<close>. The result is the boolean returned and the command line
  handed to \<^verbatim>\<open>subprocess.run\<close>, if the method got that far.
\<close>

definition run_repl ::
  "string \<Rightarrow> bool \<Rightarrow> (string list \<Rightarrow> proc_event) \<Rightarrow> string list option
     \<Rightarrow> bool \<times> string list option" where
  "run_repl executable exe_exists sp args =
     (if \<not> check_executable exe_exists then (False, None)
      else
        let cmd = [executable] @
                  (case args of None \<Rightarrow> [] | Some a \<Rightarrow> if a \<noteq> [] then a else [])
        in case subprocess_run False (sp cmd) of
             Inr process \<Rightarrow> (returncode process = 0, Some cmd)
           | Inl KeyboardInterrupt \<Rightarrow> (True, Some cmd)
           | Inl e \<Rightarrow> (False, Some cmd))"

text \<open>\<^verbatim>\<open>if args.x: repl_args.extend([flag, args.x])\<close> for a string option.\<close>

definition extend_if_truthy :: "string \<Rightarrow> string option \<Rightarrow> string list" where
  "extend_if_truthy flag v =
     (case v of None \<Rightarrow> [] | Some s \<Rightarrow> if s \<noteq> [] then [flag, s] else [])"

text \<open>The argument list \<^verbatim>\<open>main\<close> builds (source lines 92 to 107).\<close>

definition build_repl_args :: "('f \<Rightarrow> string) \<Rightarrow> 'f namespace \<Rightarrow> string list" where
  "build_repl_args str_float args =
     extend_if_truthy ''--config'' (config args) @
     extend_if_truthy ''--provider'' (provider args) @
     extend_if_truthy ''--model'' (model args) @
     extend_if_truthy ''--api-key'' (api_key args) @
     (case temperature args of None \<Rightarrow> [] | Some t \<Rightarrow> [''--temperature'', str_float t]) @
     (case max_tokens args of
        None \<Rightarrow> []
      | Some n \<Rightarrow> if n \<noteq> 0 then [''--max-tokens'', str_int n] else []) @
     (if verbose args then [''--verbose''] else [])"

record runner_result =
  returned :: pyval
  invoked :: "string list option"

text \<open>
  \<^verbatim>\<open>main()\<close> of \<^verbatim>\<open>repl_runner.py\<close> after \<^verbatim>\<open>parse_args\<close>. With \<^verbatim>\<open>--help-repl\<close> it returns
  the boolean of \<^verbatim>\<open>run_repl\<close> itself; otherwise it returns 0 or 1.
\<close>

definition repl_runner_main ::
  "('f \<Rightarrow> string) \<Rightarrow> string \<Rightarrow> bool \<Rightarrow> (string list \<Rightarrow> proc_event) \<Rightarrow> 'f namespace
     \<Rightarrow> runner_result" where
  "repl_runner_main str_float executable exe_exists sp args =
     (if help_repl args then
        (case run_repl executable exe_exists sp (Some [''--help'']) of
           (ok, cmd) \<Rightarrow> \<lparr>returned = PyBool ok, invoked = cmd\<rparr>)
      else
        let repl_args = build_repl_args str_float args in
        case run_repl executable exe_exists sp (if repl_args \<noteq> [] then Some repl_args else None) of
          (success, cmd) \<Rightarrow>
            if \<not> success
            then \<lparr>returned = PyInt 1, invoked = cmd\<rparr>
            else \<lparr>returned = PyInt 0, invoked = cmd\<rparr>)"

text \<open>
  The script: \<^verbatim>\<open>sys.exit(main())\<close>. No exception leaves \<^verbatim>\<open>main\<close> (\<^verbatim>\<open>run_repl\<close> catches
  them all), so the two handlers around it never run.
\<close>

definition repl_runner_script ::
  "('f \<Rightarrow> string) \<Rightarrow> string \<Rightarrow> bool \<Rightarrow> (string list \<Rightarrow> proc_event) \<Rightarrow> 'f namespace \<Rightarrow> int" where
  "repl_runner_script str_float executable exe_exists sp args =
     sys_exit (returned (repl_runner_main str_float executable exe_exists sp args))"



section \<open>validate.py\<close>

definition validation_steps :: "(string \<times> string list) list" where
  "validation_steps =
     [(''Project Status Check'', [''python'', ''llm-repl.py'', ''status'']),
      (''Clean Build Environment'', [''python'', ''llm-repl.py'', ''clean'']),
      (''Full Release Build'', [''python'', ''llm-repl.py'', ''build'', ''--release'']),
      (''Comprehensive Testing'', [''python'', ''llm-repl.py'', ''test'']),
      (''Code Formatting Check'', [''python'', ''llm-repl.py'', ''format'']),
      (''Application Version Test'', [''python'', ''llm-repl.py'', ''run'', ''--'', ''--version'']),
      (''Application Help Test'', [''python'', ''llm-repl.py'', ''run'', ''--'', ''--help''])]"

text \<open>
  The loop over the steps. The steps run other scripts that change the project
  directory, so the oracle threads a world \<open>'w\<close>: the event of a launch depends on
  what the earlier ones left. \<open>results\<close> is the list the source appends to (without
  the duration); \<open>calls\<close> logs each command given to \<^verbatim>\<open>subprocess.run\<close> with its event.
  Only \<^verbatim>\<open>CalledProcessError\<close> is caught; any other exception ends the loop and leaves
  \<^verbatim>\<open>run_validation\<close>.
\<close>

fun run_steps ::
  "('w \<Rightarrow> string list \<Rightarrow> proc_event \<times> 'w) \<Rightarrow> (string \<times> string list) list \<Rightarrow> 'w
     \<Rightarrow> (string \<times> bool) list \<Rightarrow> (string list \<times> proc_event) list
     \<Rightarrow> (exn + (string \<times> bool) list) \<times> (string list \<times> proc_event) list \<times> 'w" where
  "run_steps sp [] w results calls = (Inr results, calls, w)"
| "run_steps sp ((step_name, command) # rest) w results calls =
     (case sp w command of
        (ev, w') \<Rightarrow>
          (case subprocess_run True ev of
             Inr result \<Rightarrow>
               run_steps sp rest w' (results @ [(step_name, True)]) (calls @ [(command, ev)])
           | Inl (CalledProcessError rc) \<Rightarrow>
               run_steps sp rest w' (results @ [(step_name, False)]) (calls @ [(command, ev)])
           | Inl e \<Rightarrow> (Inl e, calls @ [(command, ev)], w')))"

record validation_result =
  ret :: "exn + int"
  report :: "(string \<times> string) list"
  calls :: "(string list \<times> proc_event) list"

text \<open>
  \<^verbatim>\<open>run_validation()\<close>: the loop, then the summary. A report line is the status marker
  and the step name.
\<close>

definition run_validation :: "('w \<Rightarrow> string list \<Rightarrow> proc_event \<times> 'w) \<Rightarrow> 'w \<Rightarrow> validation_result" where
  "run_validation sp w =
     (case run_steps sp validation_steps w [] [] of
        (Inl e, log, w') \<Rightarrow> \<lparr>ret = Inl e, report = [], calls = log\<rparr>
      | (Inr results, log, w') \<Rightarrow>
          let passed = length (filter (\<lambda>(step_name, success). success) results);
              total = length results
          in \<lparr>ret = Inr (if passed = total then 0 else 1),
              report = map (\<lambda>(step_name, success).
                              ((if success then ''[PASS]'' else ''[FAIL]''), step_name)) results,
              calls = log\<rparr>)"

text \<open>
  The script: \<^verbatim>\<open>sys.exit(run_validation())\<close>, and \<^verbatim>\<open>sys.exit(1)\<close> in both handlers
  (\<^verbatim>\<open>KeyboardInterrupt\<close> and \<^verbatim>\<open>Exception\<close>).
\<close>

definition validate_script :: "('w \<Rightarrow> string list \<Rightarrow> proc_event \<times> 'w) \<Rightarrow> 'w \<Rightarrow> int" where
  "validate_script sp w = (case ret (run_validation sp w) of Inr n \<Rightarrow> n | Inl e \<Rightarrow> 1)"



section \<open>llm-repl.py\<close>

subsection \<open>The tests of the test command\<close>

text \<open>The dataclass \<^verbatim>\<open>TestResult\<close>, without the duration.\<close>

record TestResult =
  name :: string
  passed :: bool
  output_text :: string
  error :: string

text \<open>\<^verbatim>\<open>needle in haystack\<close> on strings: the needle starts at some position.\<close>

fun str_in :: "string \<Rightarrow> string \<Rightarrow> bool" where
  "str_in needle [] = (needle = [])"
| "str_in needle (c # cs) = (prefix needle (c # cs) \<or> str_in needle cs)"

text \<open>\<^verbatim>\<open>str(e)\<close>, shortened to the name of the exception's class.\<close>

fun exn_str :: "exn \<Rightarrow> string" where
  "exn_str (CalledProcessError rc) = ''CalledProcessError''"
| "exn_str KeyboardInterrupt = ''KeyboardInterrupt''"
| "exn_str OSError = ''OSError''"
| "exn_str NotADirectoryError = ''NotADirectoryError''"
| "exn_str FileExistsError = ''FileExistsError''"
| "exn_str ValueError = ''ValueError''"
| "exn_str IndexError = ''IndexError''"

text \<open>
  \<^verbatim>\<open>ProjectManager.run_command(cmd, check=check)\<close> with its default
  \<^verbatim>\<open>capture_output=True\<close>: \<^verbatim>\<open>subprocess.run\<close>; a \<^verbatim>\<open>CalledProcessError\<close> is logged and
  raised again.
\<close>

definition pm_run_command :: "bool \<Rightarrow> proc_event \<Rightarrow> exn + completed_process" where
  "pm_run_command check ev =
     (case subprocess_run check ev of
        Inl (CalledProcessError rc) \<Rightarrow> Inl (CalledProcessError rc)
      | Inl e \<Rightarrow> Inl e
      | Inr result \<Rightarrow> Inr result)"

text \<open>
  Each test returns a \<^verbatim>\<open>TestResult\<close>, or lets an exception out that \<^verbatim>\<open>except Exception\<close>
  does not catch. \<open>exe_path\<close> is \<^verbatim>\<open>str(self.pm.exe_path)\<close>, \<open>exe_exists\<close> what
  \<^verbatim>\<open>self.pm.exe_path.exists()\<close> answers.
\<close>

definition test_version_check ::
  "string \<Rightarrow> bool \<Rightarrow> (string list \<Rightarrow> proc_event) \<Rightarrow> exn + TestResult" where
  "test_version_check exe_path exe_exists sp =
     (if \<not> exe_exists
      then Inr \<lparr>name = ''Version Check'', passed = False, output_text = [], error = ''Executable not found''\<rparr>
      else
        case pm_run_command True (sp [exe_path, ''--version'']) of
          Inr result \<Rightarrow>
            if str_in ''LLM REPL v'' (stdout result)
            then Inr \<lparr>name = ''Version Check'', passed = True, output_text = stdout result, error = []\<rparr>
            else Inr \<lparr>name = ''Version Check'', passed = False, output_text = stdout result,
                      error = ''Version string not found''\<rparr>
        | Inl e \<Rightarrow>
            if is_Exception e
            then Inr \<lparr>name = ''Version Check'', passed = False, output_text = [], error = exn_str e\<rparr>
            else Inl e)"

definition test_help_output ::
  "string \<Rightarrow> bool \<Rightarrow> (string list \<Rightarrow> proc_event) \<Rightarrow> exn + TestResult" where
  "test_help_output exe_path exe_exists sp =
     (if \<not> exe_exists
      then Inr \<lparr>name = ''Help Output'', passed = False, output_text = [], error = ''Executable not found''\<rparr>
      else
        case pm_run_command True (sp [exe_path, ''--help'']) of
          Inr result \<Rightarrow>
            if str_in ''Interactive AI Chat Terminal'' (stdout result)
            then Inr \<lparr>name = ''Help Output'', passed = True, output_text = stdout result, error = []\<rparr>
            else Inr \<lparr>name = ''Help Output'', passed = False, output_text = stdout result,
                      error = ''Help text not found''\<rparr>
        | Inl e \<Rightarrow>
            if is_Exception e
            then Inr \<lparr>name = ''Help Output'', passed = False, output_text = [], error = exn_str e\<rparr>
            else Inl e)"

definition test_invalid_args ::
  "string \<Rightarrow> bool \<Rightarrow> (string list \<Rightarrow> proc_event) \<Rightarrow> exn + TestResult" where
  "test_invalid_args exe_path exe_exists sp =
     (if \<not> exe_exists
      then Inr \<lparr>name = ''Invalid Arguments'', passed = False, output_text = [],
                error = ''Executable not found''\<rparr>
      else
        case pm_run_command False (sp [exe_path, ''--invalid-flag'']) of
          Inr result \<Rightarrow>
            Inr \<lparr>name = ''Invalid Arguments'', passed = True, output_text = stdout result, error = []\<rparr>
        | Inl e \<Rightarrow>
            if is_Exception e
            then Inr \<lparr>name = ''Invalid Arguments'', passed = True, output_text = [], error = exn_str e\<rparr>
            else Inl e)"

subsection \<open>The main function\<close>

text \<open>\<^verbatim>\<open>str.lower()\<close> on the ASCII letters (a \<open>char\<close> is a byte here).\<close>

definition lower_char :: "char \<Rightarrow> char" where
  "lower_char c =
     (case map_of (zip ''ABCDEFGHIJKLMNOPQRSTUVWXYZ'' ''abcdefghijklmnopqrstuvwxyz'') c of
        None \<Rightarrow> c
      | Some l \<Rightarrow> l)"

definition lower :: "string \<Rightarrow> string" where
  "lower s = map lower_char s"

text \<open>
  \<^verbatim>\<open>xs.index(x)\<close>: the position of the first occurrence, \<^verbatim>\<open>ValueError\<close> when there is
  none.
\<close>

fun index :: "'a list \<Rightarrow> 'a \<Rightarrow> exn + nat" where
  "index [] x = Inl ValueError"
| "index (y # ys) x =
     (if y = x then Inr 0 else (case index ys x of Inl e \<Rightarrow> Inl e | Inr i \<Rightarrow> Inr (Suc i)))"

text \<open>The dataclass \<^verbatim>\<open>BuildConfig\<close>.\<close>

record BuildConfig =
  build_type :: string
  compiler :: string
  generator :: string
  config_jobs :: int
  config_verbose :: bool

text \<open>
  The command objects \<^verbatim>\<open>main\<close> creates and executes, with the arguments their
  \<^verbatim>\<open>execute\<close> receives. Their bodies are a parameter of \<^verbatim>\<open>main\<close> below: \<open>execute\<close>
  answers with the boolean the command returned or the exception it raised.
\<close>

datatype command_call =
    StatusCommand
  | CleanCommand
  | BuildCommand BuildConfig
  | RunCommand "string list"
  | TestCommand
  | FormatCommand

datatype log_line = LogError string | LogInfo string | ShowHelp

record main_result =
  exit_code :: int
  printed :: "log_line list"
  executed :: "command_call option"

text \<open>
  Source lines 635 to 641: the tokens before the first \<^verbatim>\<open>--\<close> are options, those after
  it go to the application.
\<close>

definition split_app_args :: "string list \<Rightarrow> exn + (string list \<times> string list)" where
  "split_app_args args =
     (if ''--'' \<in> set args then
        (case index args ''--'' of
           Inl e \<Rightarrow> Inl e
         | Inr sep_index \<Rightarrow> Inr (take sep_index args, drop (sep_index + 1) args))
      else Inr (args, []))"

text \<open>
  Source lines 648 to 653, the body of the \<^verbatim>\<open>try\<close>: \<open>py_int\<close> is Python's \<^verbatim>\<open>int\<close> on a
  string, \<open>None\<close> where it raises \<^verbatim>\<open>ValueError\<close>. It is a parameter, so what follows
  holds whatever strings \<^verbatim>\<open>int\<close> accepts.
\<close>

definition parse_jobs :: "(string \<Rightarrow> int option) \<Rightarrow> string list \<Rightarrow> exn + int" where
  "parse_jobs py_int options =
     (if ''--jobs'' \<in> set options then
        (case index options ''--jobs'' of
           Inl e \<Rightarrow> Inl e
         | Inr job_index \<Rightarrow>
             if job_index + 1 < length options then
               (case py_int (options ! (job_index + 1)) of
                  None \<Rightarrow> Inl ValueError
                | Some n \<Rightarrow> Inr n)
             else Inr 4)
      else Inr 4)"

definition dispatch :: "string \<Rightarrow> BuildConfig \<Rightarrow> string list \<Rightarrow> command_call option" where
  "dispatch command build_config app_args =
     (if command = ''status'' then Some StatusCommand
      else if command = ''clean'' then Some CleanCommand
      else if command = ''build'' then Some (BuildCommand build_config)
      else if command = ''run'' then Some (RunCommand app_args)
      else if command = ''test'' then Some TestCommand
      else if command = ''format'' then Some FormatCommand
      else None)"

text \<open>Source lines 666 to 695: the command is executed and its outcome becomes the exit code.\<close>

definition execute_command ::
  "(command_call \<Rightarrow> exn + bool) \<Rightarrow> string \<Rightarrow> BuildConfig \<Rightarrow> string list \<Rightarrow> main_result" where
  "execute_command execute command build_config app_args =
     (case dispatch command build_config app_args of
        None \<Rightarrow>
          \<lparr>exit_code = 1, printed = [LogError (''Unknown command: '' @ command), ShowHelp],
           executed = None\<rparr>
      | Some call \<Rightarrow>
          (case execute call of
             Inr success \<Rightarrow>
               \<lparr>exit_code = (if success then 0 else 1), printed = [], executed = Some call\<rparr>
           | Inl KeyboardInterrupt \<Rightarrow>
               \<lparr>exit_code = 1, printed = [LogInfo ''Operation interrupted by user''],
                executed = Some call\<rparr>
           | Inl e \<Rightarrow>
               \<lparr>exit_code = 1, printed = [LogError (''Script execution failed: '' @ exn_str e)],
                executed = Some call\<rparr>))"

text \<open>
  \<^verbatim>\<open>main()\<close> of \<^verbatim>\<open>llm-repl.py\<close> on \<^verbatim>\<open>sys.argv\<close>. The handler around the \<^verbatim>\<open>--jobs\<close> parsing
  catches \<^verbatim>\<open>ValueError\<close> and \<^verbatim>\<open>IndexError\<close>.
\<close>

definition llm_repl_main ::
  "(string \<Rightarrow> int option) \<Rightarrow> (command_call \<Rightarrow> exn + bool) \<Rightarrow> string list \<Rightarrow> exn + main_result" where
  "llm_repl_main py_int execute argv =
     (if length argv < 2 then Inr \<lparr>exit_code = 0, printed = [ShowHelp], executed = None\<rparr>
      else
        let command = lower (argv ! 1) in
        if command = ''help'' then Inr \<lparr>exit_code = 0, printed = [ShowHelp], executed = None\<rparr>
        else
          let args = drop 2 argv in
          case split_app_args args of
            Inl e \<Rightarrow> Inl e
          | Inr (options, app_args) \<Rightarrow>
              let debug_mode = (''--debug'' \<in> set options);
                  release_mode = (''--release'' \<in> set options);
                  verbose_mode = (''--verbose'' \<in> set options)
              in case parse_jobs py_int options of
                   Inl e \<Rightarrow>
                     if e = ValueError \<or> e = IndexError
                     then Inr \<lparr>exit_code = 1, printed = [LogError ''Invalid --jobs value''],
                               executed = None\<rparr>
                     else Inl e
                 | Inr jobs_value \<Rightarrow>
                     Inr (execute_command execute command
                            \<lparr>build_type = (if debug_mode then ''Debug'' else ''Release''),
                             compiler = ''clang++'', generator = ''Unix Makefiles'',
                             config_jobs = jobs_value, config_verbose = verbose_mode\<rparr>
                            app_args))"

section \<open>Properties of build.py\<close>

lemma runs_append: "runs (xs @ ys) = runs xs @ runs ys"
  by (induction xs rule: runs.induct) auto

lemma cmd_neq: "cmake_cmd root args \<noteq> build_cmd args"
  by (simp add: cmake_cmd_def build_cmd_def Let_def)

text \<open>The directory as the configure step finds it.\<close>

lemma prepare_build_dir_cases:
  "prepare_build_dir args \<lparr>build_dir = start, trace = []\<rparr> =
     (case start of
        Absent \<Rightarrow> (Inr (), \<lparr>build_dir = Dir [], trace = [Mkdir]\<rparr>)
      | File \<Rightarrow>
          if clean args
          then (Inl NotADirectoryError, \<lparr>build_dir = File, trace = []\<rparr>)
          else (Inl FileExistsError, \<lparr>build_dir = File, trace = []\<rparr>)
      | Dir c \<Rightarrow>
          if clean args
          then (Inr (), \<lparr>build_dir = Dir [], trace = [Rmtree, Mkdir]\<rparr>)
          else (Inr (), \<lparr>build_dir = Dir c, trace = []\<rparr>))"
  by (simp add: prepare_build_dir_def rmtree_def mkdir_exist_ok_def path_exists_def
      split: path_state.splits)

lemma build_run_command_eq:
  "build_run_command sp cmd s =
     (case sp cmd (build_dir s) of
        (ev, d') \<Rightarrow>
          ((case ev of Exit rc out \<Rightarrow> Inr (rc = 0) | LaunchError \<Rightarrow> Inl OSError | Interrupted \<Rightarrow> Inl KeyboardInterrupt),
           \<lparr>build_dir = d', trace = trace s @ [Run cmd (build_dir s) ev]\<rparr>))"
  by (cases s) (simp add: build_run_command_def subprocess_run_def split: prod.splits proc_event.splits)

lemma configure_and_build_runs:
  assumes "configure_and_build sp root args s2 = (r, s)"
  shows "(\<exists>ev1 d2. sp (cmake_cmd root args) (build_dir s2) = (ev1, d2)
            \<and> (\<forall>out. ev1 \<noteq> Exit 0 out)
            \<and> runs (trace s) = runs (trace s2) @ [(cmake_cmd root args, build_dir s2, ev1)]
            \<and> r = (case ev1 of Exit rc out \<Rightarrow> Inr 1 | LaunchError \<Rightarrow> Inl OSError | Interrupted \<Rightarrow> Inl KeyboardInterrupt))
       \<or> (\<exists>out d2 ev2 d3. sp (cmake_cmd root args) (build_dir s2) = (Exit 0 out, d2)
            \<and> sp (build_cmd args) d2 = (ev2, d3)
            \<and> runs (trace s) = runs (trace s2) @ [(cmake_cmd root args, build_dir s2, Exit 0 out), (build_cmd args, d2, ev2)]
            \<and> r = (case ev2 of Exit rc out \<Rightarrow> Inr (if rc = 0 then 0 else 1) | LaunchError \<Rightarrow> Inl OSError | Interrupted \<Rightarrow> Inl KeyboardInterrupt))"
  using assms
  by (auto simp: configure_and_build_def build_run_command_eq runs_append
      split: prod.splits proc_event.splits if_splits)

lemma runs_mem: "(c, d, ev) \<in> set (runs t) \<longleftrightarrow> Run c d ev \<in> set t"
  by (induction t rule: runs.induct) auto

lemma build_main_runs:
  assumes "build_main sp root args start = (r, s)"
  shows "(runs (trace s) = [] \<and> start = File \<and> (\<exists>e. r = Inl e))
       \<or> (\<exists>d1 ev1 d2. start \<noteq> File
            \<and> d1 = (case start of Dir c \<Rightarrow> if clean args then Dir [] else Dir c | _ \<Rightarrow> Dir [])
            \<and> sp (cmake_cmd root args) d1 = (ev1, d2)
            \<and> (\<forall>out. ev1 \<noteq> Exit 0 out)
            \<and> runs (trace s) = [(cmake_cmd root args, d1, ev1)]
            \<and> r = (case ev1 of Exit rc out \<Rightarrow> Inr 1 | LaunchError \<Rightarrow> Inl OSError | Interrupted \<Rightarrow> Inl KeyboardInterrupt))
       \<or> (\<exists>d1 out d2 ev2 d3. start \<noteq> File
            \<and> d1 = (case start of Dir c \<Rightarrow> if clean args then Dir [] else Dir c | _ \<Rightarrow> Dir [])
            \<and> sp (cmake_cmd root args) d1 = (Exit 0 out, d2)
            \<and> sp (build_cmd args) d2 = (ev2, d3)
            \<and> runs (trace s) = [(cmake_cmd root args, d1, Exit 0 out), (build_cmd args, d2, ev2)]
            \<and> r = (case ev2 of Exit rc out \<Rightarrow> Inr (if rc = 0 then 0 else 1) | LaunchError \<Rightarrow> Inl OSError | Interrupted \<Rightarrow> Inl KeyboardInterrupt))"
proof (cases start)
  case File
  with assms show ?thesis
    by (auto simp: build_main_def prepare_build_dir_cases split: if_splits)
next
  case Absent
  with assms have "configure_and_build sp root args \<lparr>build_dir = Dir [], trace = [Mkdir]\<rparr> = (r, s)"
    by (simp add: build_main_def prepare_build_dir_cases)
  from configure_and_build_runs[OF this] Absent show ?thesis by simp
next
  case (Dir c)
  show ?thesis
  proof (cases "clean args")
    case True
    with assms Dir have "configure_and_build sp root args
        \<lparr>build_dir = Dir [], trace = [Rmtree, Mkdir]\<rparr> = (r, s)"
      by (simp add: build_main_def prepare_build_dir_cases)
    from configure_and_build_runs[OF this] Dir True show ?thesis by simp
  next
    case False
    with assms Dir have "configure_and_build sp root args \<lparr>build_dir = Dir c, trace = []\<rparr> = (r, s)"
      by (simp add: build_main_def prepare_build_dir_cases)
    from configure_and_build_runs[OF this] Dir False show ?thesis by simp
  qed
qed

text \<open>
  Claim C4. In every run of \<^verbatim>\<open>main\<close> of \<^verbatim>\<open>build.py\<close>: if the configure subprocess exits
  with a nonzero code, \<^verbatim>\<open>main\<close> returns 1 and the build subprocess is never started; if
  configure exits with 0 and the build subprocess exits nonzero, \<^verbatim>\<open>main\<close> returns 1; if
  both exit with 0, \<^verbatim>\<open>main\<close> returns 0. The subprocesses of a run are read off its trace.
\<close>

theorem build_main_exit_codes:
  assumes "build_main sp root args start = (r, s)"
  shows "(\<forall>d rc out. Run (cmake_cmd root args) d (Exit rc out) \<in> set (trace s) \<and> rc \<noteq> 0
            \<longrightarrow> r = Inr 1 \<and> (\<forall>d' ev. Run (build_cmd args) d' ev \<notin> set (trace s)))
       \<and> (\<forall>d out d' rc out'. Run (cmake_cmd root args) d (Exit 0 out) \<in> set (trace s)
            \<and> Run (build_cmd args) d' (Exit rc out') \<in> set (trace s) \<and> rc \<noteq> 0
            \<longrightarrow> r = Inr 1)
       \<and> (\<forall>d out d' out'. Run (cmake_cmd root args) d (Exit 0 out) \<in> set (trace s)
            \<and> Run (build_cmd args) d' (Exit 0 out') \<in> set (trace s)
            \<longrightarrow> r = Inr 0)"
  using build_main_runs[OF assms] cmd_neq[of root args]
  unfolding runs_mem[symmetric]
  by (elim disjE exE conjE) (simp, auto)

text \<open>
  Three runs on an absent build directory: configure exits with 2; configure exits
  with 0 and the build with 2; both exit with 0.
\<close>

theorem build_main_exit_codes_witness:
  "fst (build_main (\<lambda>cmd d. (Exit 2 [], d)) ''/p'' \<lparr>clean = False, debug = False, jobs = None\<rparr> Absent) = Inr 1
   \<and> fst (build_main (\<lambda>cmd d. if cmd = [''cmake'', ''--build'', ''.''] then (Exit 2 [], d) else (Exit 0 [], d))
        ''/p'' \<lparr>clean = False, debug = False, jobs = None\<rparr> Absent) = Inr 1
   \<and> fst (build_main (\<lambda>cmd d. (Exit 0 [], Dir [''llm-repl''])) ''/p''
        \<lparr>clean = False, debug = False, jobs = None\<rparr> Absent) = Inr 0"
proof -
  let ?a = "\<lparr>clean = False, debug = False, jobs = None\<rparr>"
  let ?conf = "[''cmake'', ''-DCMAKE_BUILD_TYPE=Release'', ''/p'']"
  let ?build = "[''cmake'', ''--build'', ''.'']"
  let ?sp1 = "\<lambda>(cmd::string list) (d::path_state). (Exit 2 [], d)"
  let ?sp2 = "\<lambda>(cmd::string list) (d::path_state). if cmd = ?build then (Exit 2 [], d) else (Exit 0 [], d)"
  let ?sp3 = "\<lambda>(cmd::string list) (d::path_state). (Exit 0 [], Dir [''llm-repl''])"
  have c: "cmake_cmd ''/p'' ?a = ?conf" and b: "build_cmd ?a = ?build"
    by (simp_all add: cmake_cmd_def build_cmd_def)
  have e1: "build_main ?sp1 ''/p'' ?a Absent =
      (Inr 1, \<lparr>build_dir = Dir [], trace = [Mkdir, Run ?conf (Dir []) (Exit 2 [])]\<rparr>)"
    by (simp add: build_main_def prepare_build_dir_cases configure_and_build_def
        build_run_command_eq c)
  have e2: "build_main ?sp2 ''/p'' ?a Absent =
      (Inr 1, \<lparr>build_dir = Dir [], trace = [Mkdir, Run ?conf (Dir []) (Exit 0 []),
         Run ?build (Dir []) (Exit 2 [])]\<rparr>)"
    by (simp add: build_main_def prepare_build_dir_cases configure_and_build_def
        build_run_command_eq c b)
  have e3: "build_main ?sp3 ''/p'' ?a Absent =
      (Inr 0, \<lparr>build_dir = Dir [''llm-repl''], trace = [Mkdir, Run ?conf (Dir []) (Exit 0 []),
         Run ?build (Dir [''llm-repl'']) (Exit 0 [])]\<rparr>)"
    by (simp add: build_main_def prepare_build_dir_cases configure_and_build_def
        build_run_command_eq c b)
  have "Run (cmake_cmd ''/p'' ?a) (Dir []) (Exit 2 []) \<in> set (trace (snd (build_main ?sp1 ''/p'' ?a Absent)))
        \<and> (2::int) \<noteq> 0"
    by (simp add: e1 c)
  with build_main_exit_codes[where sp = ?sp1 and root = "''/p''" and args = ?a and start = Absent,
      OF prod.collapse[symmetric]]
  have w1: "fst (build_main ?sp1 ''/p'' ?a Absent) = Inr 1"
    by blast
  have "Run (cmake_cmd ''/p'' ?a) (Dir []) (Exit 0 []) \<in> set (trace (snd (build_main ?sp2 ''/p'' ?a Absent)))
        \<and> Run (build_cmd ?a) (Dir []) (Exit 2 []) \<in> set (trace (snd (build_main ?sp2 ''/p'' ?a Absent)))
        \<and> (2::int) \<noteq> 0"
    by (simp add: e2 c b)
  with build_main_exit_codes[where sp = ?sp2 and root = "''/p''" and args = ?a and start = Absent,
      OF prod.collapse[symmetric]]
  have w2: "fst (build_main ?sp2 ''/p'' ?a Absent) = Inr 1"
    by blast
  have "Run (cmake_cmd ''/p'' ?a) (Dir []) (Exit 0 []) \<in> set (trace (snd (build_main ?sp3 ''/p'' ?a Absent)))
        \<and> Run (build_cmd ?a) (Dir [''llm-repl'']) (Exit 0 []) \<in> set (trace (snd (build_main ?sp3 ''/p'' ?a Absent)))"
    by (simp add: e3 c b)
  with build_main_exit_codes[where sp = ?sp3 and root = "''/p''" and args = ?a and start = Absent,
      OF prod.collapse[symmetric]]
  have w3: "fst (build_main ?sp3 ''/p'' ?a Absent) = Inr 0"
    by blast
  from w1 w2 w3 show ?thesis by blast
qed





section \<open>Properties of repl_runner.py\<close>

lemma run_repl_invoked:
  "snd (run_repl executable exe_exists sp args) =
     (if exe_exists
      then Some (executable # (case args of None \<Rightarrow> [] | Some a \<Rightarrow> a))
      else None)"
  by (auto simp: run_repl_def check_executable_def Let_def
      split: option.splits sum.splits exn.splits)

lemma repl_runner_main_invoked:
  "\<not> help_repl args \<Longrightarrow>
   invoked (repl_runner_main str_float executable exe_exists sp args) =
     (if exe_exists then Some (executable # build_repl_args str_float args) else None)"
  using run_repl_invoked[of executable exe_exists sp
      "if build_repl_args str_float args \<noteq> [] then Some (build_repl_args str_float args) else None"]
  by (auto simp: repl_runner_main_def Let_def split: prod.splits if_splits)

lemma run_repl_exit:
  "sp (executable # (case args of None \<Rightarrow> [] | Some a \<Rightarrow> a)) = Exit rc out \<Longrightarrow>
   fst (run_repl executable True sp args) = (rc = 0)"
  by (auto simp: run_repl_def check_executable_def Let_def subprocess_run_def
      split: option.splits)


text \<open>
  Claim C1 says that the script's exit status equals the exit code of the external
  executable. It does not: the executable exists, runs to completion and exits with
  code 2, and the script does not exit with 2 (it exits with 1).
\<close>

theorem repl_runner_exit_code_counterexample:
  "repl_runner_script (\<lambda>t. t) ''build/llm-repl.exe'' True (\<lambda>cmd. Exit 2 [])
     \<lparr>api_key = None, provider = None, model = None, config = None, temperature = None,
      max_tokens = None, verbose = False, help_repl = False\<rparr> = 1
   \<and> repl_runner_script (\<lambda>t. t) ''build/llm-repl.exe'' True (\<lambda>cmd. Exit 2 [])
     \<lparr>api_key = None, provider = None, model = None, config = None, temperature = None,
      max_tokens = None, verbose = False, help_repl = False\<rparr> \<noteq> 2"
  by (simp add: repl_runner_script_def repl_runner_main_def run_repl_def check_executable_def
      build_repl_args_def extend_if_truthy_def subprocess_run_def sys_exit_def)

text \<open>
  Claim C1, amended. In every run of \<^verbatim>\<open>repl_runner.py\<close> without \<^verbatim>\<open>--help-repl\<close> in which the
  executable exists and runs to completion, the executable is started with the
  arguments \<^verbatim>\<open>main\<close> built, and the script's exit status is 0 if the executable's exit
  code is 0 and 1 otherwise.
\<close>

theorem repl_runner_exit_code:
  assumes "\<not> help_repl args"
    and "sp (executable # build_repl_args str_float args) = Exit rc out"
  shows "invoked (repl_runner_main str_float executable True sp args)
           = Some (executable # build_repl_args str_float args)
       \<and> repl_runner_script str_float executable True sp args = (if rc = 0 then 0 else 1)"
proof -
  let ?ra = "build_repl_args str_float args"
  let ?arg = "if ?ra \<noteq> [] then Some ?ra else None"
  have "sp (executable # (case ?arg of None \<Rightarrow> [] | Some a \<Rightarrow> a)) = Exit rc out"
    using assms(2) by (cases "?ra = []") simp_all
  from run_repl_exit[where sp = sp and executable = executable and args = ?arg and rc = rc and out = out, OF this]
  have "fst (run_repl executable True sp ?arg) = (rc = 0)" .
  then have "repl_runner_script str_float executable True sp args = (if rc = 0 then 0 else 1)"
    using assms(1)
    by (cases "?ra = []")
      (auto simp: repl_runner_script_def repl_runner_main_def Let_def sys_exit_def
        split: prod.splits)
  with repl_runner_main_invoked[OF assms(1), of str_float executable True sp]
  show ?thesis by simp
qed

text \<open>Two runs with \<^verbatim>\<open>--provider groq --temperature 0.7\<close>: exit code 2, then exit code 0.\<close>

theorem repl_runner_exit_code_witness:
  "repl_runner_script (\<lambda>t. t) ''build/llm-repl.exe'' True (\<lambda>cmd. Exit 2 [])
     \<lparr>api_key = None, provider = Some ''groq'', model = None, config = None,
      temperature = Some ''0.7'', max_tokens = None, verbose = False, help_repl = False\<rparr> = 1
   \<and> repl_runner_script (\<lambda>t. t) ''build/llm-repl.exe'' True (\<lambda>cmd. Exit 0 [])
     \<lparr>api_key = None, provider = Some ''groq'', model = None, config = None,
      temperature = Some ''0.7'', max_tokens = None, verbose = False, help_repl = False\<rparr> = 0"
proof -
  let ?ns = "\<lparr>api_key = None, provider = Some ''groq'', model = None, config = None,
      temperature = Some ''0.7'', max_tokens = None, verbose = False, help_repl = False\<rparr>"
  have h: "\<not> help_repl ?ns" by simp
  have "(\<lambda>cmd::string list. Exit 2 []) (''build/llm-repl.exe'' # build_repl_args (\<lambda>t. t) ?ns) = Exit 2 []"
    by simp
  from repl_runner_exit_code[OF h this]
  have w1: "repl_runner_script (\<lambda>t. t) ''build/llm-repl.exe'' True (\<lambda>cmd. Exit 2 []) ?ns = 1"
    by simp
  have "(\<lambda>cmd::string list. Exit 0 []) (''build/llm-repl.exe'' # build_repl_args (\<lambda>t. t) ?ns) = Exit 0 []"
    by simp
  from repl_runner_exit_code[OF h this]
  have w2: "repl_runner_script (\<lambda>t. t) ''build/llm-repl.exe'' True (\<lambda>cmd. Exit 0 []) ?ns = 0"
    by simp
  from w1 w2 show ?thesis by blast
qed

text \<open>With \<^verbatim>\<open>--help-repl\<close> the boolean of \<^verbatim>\<open>run_repl\<close> reaches \<^verbatim>\<open>sys.exit\<close> unconverted.\<close>

lemma repl_runner_help_repl_exit:
  assumes "help_repl args" and "sp [executable, ''--help''] = Exit rc out"
  shows "repl_runner_script str_float executable True sp args = (if rc = 0 then 1 else 0)"
  using assms
  by (simp add: repl_runner_script_def repl_runner_main_def run_repl_def check_executable_def
      subprocess_run_def sys_exit_def)




text \<open>
  Claim C8. In \<^verbatim>\<open>main\<close> of \<^verbatim>\<open>repl_runner.py\<close> (without \<^verbatim>\<open>--help-repl\<close>, the executable
  existing): with \<^verbatim>\<open>--max-tokens 0\<close> the executable is started exactly as if the flag had
  not been given; with a nonzero value \<open>n\<close> the command line is that of the run without
  the flag (and without \<^verbatim>\<open>--verbose\<close>), then \<^verbatim>\<open>--max-tokens\<close> and \<open>str n\<close>, then
  \<^verbatim>\<open>--verbose\<close> if given; and every temperature that is not \<^verbatim>\<open>None\<close>, 0.0 included, is
  forwarded as \<^verbatim>\<open>--temperature\<close> and its \<^verbatim>\<open>str\<close>, before the max-tokens and verbose flags.
\<close>

theorem falsy_values_forwarding:
  assumes "\<not> help_repl args"
  shows "(max_tokens args = Some 0 \<longrightarrow>
            invoked (repl_runner_main str_float executable True sp args)
              = invoked (repl_runner_main str_float executable True sp (args\<lparr>max_tokens := None\<rparr>)))
       \<and> (\<forall>n. max_tokens args = Some n \<and> n \<noteq> 0 \<longrightarrow>
            (\<exists>pre. invoked (repl_runner_main str_float executable True sp
                       (args\<lparr>max_tokens := None, verbose := False\<rparr>)) = Some pre
               \<and> invoked (repl_runner_main str_float executable True sp args)
                   = Some (pre @ [''--max-tokens'', str_int n] @
                           (if verbose args then [''--verbose''] else []))))
       \<and> (\<forall>t. temperature args = Some t \<longrightarrow>
            (\<exists>pre. invoked (repl_runner_main str_float executable True sp
                       (args\<lparr>temperature := None, max_tokens := None, verbose := False\<rparr>)) = Some pre
               \<and> invoked (repl_runner_main str_float executable True sp args)
                   = Some (pre @ [''--temperature'', str_float t] @
                           (case max_tokens args of
                              None \<Rightarrow> []
                            | Some n \<Rightarrow> if n \<noteq> 0 then [''--max-tokens'', str_int n] else []) @
                           (if verbose args then [''--verbose''] else []))))"
  using assms
  by (simp add: repl_runner_main_invoked build_repl_args_def)

text \<open>
  \<^verbatim>\<open>--temperature 0.0 --max-tokens 0\<close> forwards the temperature only; \<^verbatim>\<open>--max-tokens 7\<close> is
  forwarded.
\<close>

theorem falsy_values_forwarding_witness:
  "invoked (repl_runner_main (\<lambda>t. t) ''build/llm-repl.exe'' True (\<lambda>cmd. Exit 0 [])
     \<lparr>api_key = None, provider = None, model = None, config = None, temperature = Some ''0.0'',
      max_tokens = Some 0, verbose = False, help_repl = False\<rparr>)
   = Some [''build/llm-repl.exe'', ''--temperature'', ''0.0'']
   \<and> invoked (repl_runner_main (\<lambda>t. t) ''build/llm-repl.exe'' True (\<lambda>cmd. Exit 0 [])
     \<lparr>api_key = None, provider = None, model = None, config = None, temperature = None,
      max_tokens = Some 7, verbose = False, help_repl = False\<rparr>)
   = Some [''build/llm-repl.exe'', ''--max-tokens'', ''7'']"
proof -
  let ?M = "repl_runner_main (\<lambda>t. t) ''build/llm-repl.exe'' True (\<lambda>cmd. Exit 0 [])"
  let ?a = "\<lparr>api_key = None, provider = None, model = None, config = None, temperature = Some ''0.0'',
      max_tokens = Some 0, verbose = False, help_repl = False\<rparr>"
  let ?b = "\<lparr>api_key = None, provider = None, model = None, config = None,
      temperature = None :: string option,
      max_tokens = Some 7, verbose = False, help_repl = False\<rparr>"
  let ?blank = "\<lparr>api_key = None, provider = None, model = None, config = None,
      temperature = None :: string option,
      max_tokens = None, verbose = False, help_repl = False\<rparr>"
  have s: "str_int 7 = ''7''" by code_simp
  have blank: "invoked (?M ?blank) = Some [''build/llm-repl.exe'']"
    by (simp add: repl_runner_main_invoked build_repl_args_def extend_if_truthy_def)
  have ha: "\<not> help_repl ?a" and hb: "\<not> help_repl ?b" by simp_all
  note ta = falsy_values_forwarding[OF ha, of "\<lambda>t. t" "''build/llm-repl.exe''" "\<lambda>cmd. Exit 0 []",
      THEN conjunct2, THEN conjunct2, rule_format, of "''0.0''"]
  have "temperature ?a = Some ''0.0''" by simp
  from ta[OF this] blank
  have w1: "invoked (?M ?a) = Some [''build/llm-repl.exe'', ''--temperature'', ''0.0'']"
    by simp
  note tb = falsy_values_forwarding[OF hb, of "\<lambda>t. t" "''build/llm-repl.exe''" "\<lambda>cmd. Exit 0 []",
      THEN conjunct2, THEN conjunct1, rule_format, of 7]
  have "max_tokens ?b = Some 7 \<and> (7::int) \<noteq> 0" by simp
  from tb[OF this] blank
  have w2: "invoked (?M ?b) = Some [''build/llm-repl.exe'', ''--max-tokens'', ''7'']"
    by (simp add: s)
  from w1 w2 show ?thesis by blast
qed

section \<open>Properties of validate.py\<close>














text \<open>
  What the two theorems leave open: a step whose subprocess cannot be started. The
  exception is not a \<^verbatim>\<open>CalledProcessError\<close>, so it leaves the loop and
  \<^verbatim>\<open>run_validation\<close>; the later steps are not launched and the script exits with 1.
\<close>

lemma run_validation_launch_error:
  assumes "sp w [''python'', ''llm-repl.py'', ''status''] = (LaunchError, w')"
  shows "ret (run_validation sp w) = Inl OSError
       \<and> map fst (calls (run_validation sp w)) = [[''python'', ''llm-repl.py'', ''status'']]
       \<and> validate_script sp w = 1"
  using assms
  by (simp add: validate_script_def run_validation_def validation_steps_def subprocess_run_def)

section \<open>Properties of llm-repl.py\<close>

text \<open>\<open>str_in\<close> is the substring test.\<close>

lemma str_in_iff: "str_in needle hay \<longleftrightarrow> (\<exists>before after. hay = before @ needle @ after)"
proof (induction hay)
  case Nil
  show ?case by auto
next
  case (Cons c cs)
  show ?case
  proof
    assume "str_in needle (c # cs)"
    then consider "prefix needle (c # cs)" | "str_in needle cs" by auto
    then show "\<exists>before after. c # cs = before @ needle @ after"
    proof cases
      case 1
      then obtain after where "c # cs = needle @ after" by (auto simp: prefix_def)
      then have "c # cs = [] @ needle @ after" by simp
      then show ?thesis by blast
    next
      case 2
      with Cons obtain before after where "cs = before @ needle @ after" by blast
      then have "c # cs = (c # before) @ needle @ after" by simp
      then show ?thesis by blast
    qed
  next
    assume "\<exists>before after. c # cs = before @ needle @ after"
    then obtain before after where eq: "c # cs = before @ needle @ after" by blast
    show "str_in needle (c # cs)"
    proof (cases before)
      case Nil
      with eq have "prefix needle (c # cs)" by (simp add: prefix_def)
      then show ?thesis by simp
    next
      case (Cons b bs)
      with eq have "cs = bs @ needle @ after" by simp
      with Cons.IH have "str_in needle cs" by blast
      then show ?thesis by simp
    qed
  qed
qed

lemma pm_run_command_eq: "pm_run_command check ev = subprocess_run check ev"
  by (simp add: pm_run_command_def split: sum.splits exn.splits)

text \<open>
  Claim C7. The Version Check test of the test command passes exactly when the
  executable exists, the run with \<^verbatim>\<open>--version\<close> ends with exit code 0 and no exception,
  and the captured standard output contains \<^verbatim>\<open>LLM REPL v\<close>; the Help Output test passes
  exactly when the executable exists, the run with \<^verbatim>\<open>--help\<close> ends with exit code 0 and
  no exception, and the output contains \<^verbatim>\<open>Interactive AI Chat Terminal\<close>.
\<close>

theorem version_and_help_tests:
  "((\<exists>r. test_version_check exe_path exe_exists sp = Inr r \<and> passed r) \<longleftrightarrow>
      exe_exists \<and> (\<exists>out. sp [exe_path, ''--version''] = Exit 0 out \<and> str_in ''LLM REPL v'' out))
   \<and> ((\<exists>r. test_help_output exe_path exe_exists sp = Inr r \<and> passed r) \<longleftrightarrow>
      exe_exists \<and> (\<exists>out. sp [exe_path, ''--help''] = Exit 0 out
                        \<and> str_in ''Interactive AI Chat Terminal'' out))"
proof -
  have v: "(\<exists>r. test_version_check exe_path exe_exists sp = Inr r \<and> passed r) \<longleftrightarrow>
      exe_exists \<and> (\<exists>out. sp [exe_path, ''--version''] = Exit 0 out \<and> str_in ''LLM REPL v'' out)"
    by (cases "sp [exe_path, ''--version'']")
      (auto simp: test_version_check_def pm_run_command_eq subprocess_run_def is_Exception_def)
  have h: "(\<exists>r. test_help_output exe_path exe_exists sp = Inr r \<and> passed r) \<longleftrightarrow>
      exe_exists \<and> (\<exists>out. sp [exe_path, ''--help''] = Exit 0 out
                        \<and> str_in ''Interactive AI Chat Terminal'' out)"
    by (cases "sp [exe_path, ''--help'']")
      (auto simp: test_help_output_def pm_run_command_eq subprocess_run_def is_Exception_def)
  from v h show ?thesis by blast
qed

text \<open>A version banner that passes, and a help text without the expected phrase.\<close>

theorem version_and_help_tests_witness:
  "(\<exists>r. test_version_check ''build/llm-repl.exe'' True (\<lambda>cmd. Exit 0 ''LLM REPL v2.0'') = Inr r \<and> passed r)
   \<and> \<not> (\<exists>r. test_help_output ''build/llm-repl.exe'' True (\<lambda>cmd. Exit 0 ''usage: llm-repl'') = Inr r
            \<and> passed r)"
proof -
  have v: "str_in ''LLM REPL v'' ''LLM REPL v2.0''" by simp
  have h: "\<not> str_in ''Interactive AI Chat Terminal'' ''usage: llm-repl''" by simp
  from v version_and_help_tests[of "''build/llm-repl.exe''" True "\<lambda>cmd. Exit 0 ''LLM REPL v2.0''"]
  have w1: "\<exists>r. test_version_check ''build/llm-repl.exe'' True (\<lambda>cmd. Exit 0 ''LLM REPL v2.0'') = Inr r \<and> passed r"
    by simp
  from h version_and_help_tests[of "''build/llm-repl.exe''" True "\<lambda>cmd. Exit 0 ''usage: llm-repl''"]
  have w2: "\<not> (\<exists>r. test_help_output ''build/llm-repl.exe'' True (\<lambda>cmd. Exit 0 ''usage: llm-repl'') = Inr r
            \<and> passed r)"
    by simp
  from w1 w2 show ?thesis by blast
qed

text \<open>
  Claim C9. When the executable exists, the Invalid Arguments test returns
  \<open>passed = True\<close> whatever the exit code and the output of the run, and also when
  starting the executable raises an exception; it returns \<open>passed = False\<close> only when
  the executable is missing, and then it does. (Ctrl-C during the run is not caught by
  \<^verbatim>\<open>except Exception\<close>: the \<^verbatim>\<open>KeyboardInterrupt\<close> leaves the test without a result.)
\<close>

theorem invalid_args_test:
  "(exe_exists \<longrightarrow>
      (\<forall>rc out. sp [exe_path, ''--invalid-flag''] = Exit rc out \<longrightarrow>
         (\<exists>r. test_invalid_args exe_path exe_exists sp = Inr r \<and> passed r))
      \<and> (sp [exe_path, ''--invalid-flag''] = LaunchError \<longrightarrow>
         (\<exists>r. test_invalid_args exe_path exe_exists sp = Inr r \<and> passed r))
      \<and> (sp [exe_path, ''--invalid-flag''] = Interrupted \<longrightarrow>
         test_invalid_args exe_path exe_exists sp = Inl KeyboardInterrupt))
   \<and> (\<forall>r. test_invalid_args exe_path exe_exists sp = Inr r \<and> \<not> passed r \<longrightarrow> \<not> exe_exists)
   \<and> (\<not> exe_exists \<longrightarrow> (\<exists>r. test_invalid_args exe_path exe_exists sp = Inr r \<and> \<not> passed r))"
  by (cases "sp [exe_path, ''--invalid-flag'']")
    (auto simp: test_invalid_args_def pm_run_command_eq subprocess_run_def is_Exception_def)

text \<open>Exit code 2, a launch that fails, and a missing executable.\<close>

theorem invalid_args_test_witness:
  "(\<exists>r. test_invalid_args ''build/llm-repl.exe'' True (\<lambda>cmd. Exit 2 ''unknown option'') = Inr r \<and> passed r)
   \<and> (\<exists>r. test_invalid_args ''build/llm-repl.exe'' True (\<lambda>cmd. LaunchError) = Inr r \<and> passed r)
   \<and> (\<exists>r. test_invalid_args ''build/llm-repl.exe'' False (\<lambda>cmd. LaunchError) = Inr r \<and> \<not> passed r)"
proof -
  from invalid_args_test[of True "\<lambda>cmd. Exit 2 ''unknown option''" "''build/llm-repl.exe''"]
  have w1: "\<exists>r. test_invalid_args ''build/llm-repl.exe'' True (\<lambda>cmd. Exit 2 ''unknown option'') = Inr r \<and> passed r"
    by simp
  from invalid_args_test[of True "\<lambda>cmd. LaunchError" "''build/llm-repl.exe''"]
  have w2: "\<exists>r. test_invalid_args ''build/llm-repl.exe'' True (\<lambda>cmd. LaunchError) = Inr r \<and> passed r"
    by simp
  from invalid_args_test[of False "\<lambda>cmd. LaunchError" "''build/llm-repl.exe''"]
  have w3: "\<exists>r. test_invalid_args ''build/llm-repl.exe'' False (\<lambda>cmd. LaunchError) = Inr r \<and> \<not> passed r"
    by simp
  from w1 w2 w3 show ?thesis by blast
qed


lemma index_mem: "x \<in> set xs \<Longrightarrow> \<exists>i. index xs x = Inr i"
  by (induction xs) auto

text \<open>Under its guard \<^verbatim>\<open>"--" in args\<close> the separator is found: no exception leaves the split.\<close>

lemma split_app_args_total: "\<exists>options app_args. split_app_args args = Inr (options, app_args)"
  using index_mem[of "''--''" args]
  by (auto simp: split_app_args_def)




text \<open>The \<^verbatim>\<open>help\<close> command returns before the options are read, whatever follows it.\<close>

lemma help_ignores_options:
  "lower cmd = ''help'' \<Longrightarrow>
   llm_repl_main py_int execute (prog # cmd # args) =
     Inr \<lparr>exit_code = 0, printed = [ShowHelp], executed = None\<rparr>"
  by (simp add: llm_repl_main_def)

end
